theory Spec2Isabelle
  imports Main "HOL-Library.Word"
begin

section \<open>Python values\<close>

text \<open>
  A Python \<^verbatim>\<open>str\<close> is a sequence of Unicode code points, so it is a list of
  naturals here and \<^verbatim>\<open>len\<close> is \<open>length\<close>. A \<^verbatim>\<open>bytes\<close> object is a list of
  8-bit words. String literals of the source are written through \<open>ascii\<close>.
\<close>

type_synonym pystr = "nat list"
type_synonym byte = "8 word"

definition ascii :: "string \<Rightarrow> pystr" where
  "ascii s = map of_char s"

text \<open>
  What \<^verbatim>\<open>json()\<close> can return: \<^verbatim>\<open>None\<close>, a bool, an int, a float (its 64 bits),
  a str, a list, or a dict with str keys (an association list in insertion order).
\<close>

datatype json =
    JNull
  | JBool bool
  | JInt int
  | JFloat "64 word"
  | JStr pystr
  | JList "json list"
  | JObj "(pystr \<times> json) list"

type_synonym dict = "(pystr \<times> json) list"

text \<open>
  Every exception the modelled code can raise is a value. \<open>InvalidResponse\<close>,
  \<open>LoginDataError\<close> and \<open>NetSchoolAPIError\<close> are the library's own typed errors;
  \<open>KeyError\<close>, \<open>IndexError\<close>, \<open>TypeError\<close>, \<open>AttributeError\<close>,
  \<open>UnicodeEncodeError\<close> and \<open>OverflowError\<close> are Python's built-in ones;
  \<open>TransportError\<close> stands for whatever the HTTP client raises when a request
  fails, and \<open>LoginFormError\<close> for whatever the login-form resolver raises.
\<close>

datatype error =
    InvalidResponse pystr
  | LoginDataError
  | NetSchoolAPIError json
  | KeyError json
  | IndexError
  | TypeError
  | AttributeError
  | UnicodeEncodeError
  | OverflowError
  | TransportError pystr
  | LoginFormError pystr

definition bnd :: "error + 'a \<Rightarrow> ('a \<Rightarrow> error + 'b) \<Rightarrow> error + 'b" where
  "bnd m f = (case m of Inl e \<Rightarrow> Inl e | Inr x \<Rightarrow> f x)"

subsection \<open>Dictionaries\<close>

text \<open>\<^verbatim>\<open>d[k] = v\<close>: an existing key keeps its position, a new key goes last.\<close>

fun dict_set :: "'k \<Rightarrow> 'v \<Rightarrow> ('k \<times> 'v) list \<Rightarrow> ('k \<times> 'v) list" where
  "dict_set k v [] = [(k, v)]"
| "dict_set k v ((k', v') # d) =
     (if k = k' then (k, v) # d else (k', v') # dict_set k v d)"

text \<open>\<^verbatim>\<open>{**d, **e}\<close> and \<^verbatim>\<open>d.update(e)\<close>: the items of \<open>e\<close> are stored one by one.\<close>

fun dict_update :: "('k \<times> 'v) list \<Rightarrow> ('k \<times> 'v) list \<Rightarrow> ('k \<times> 'v) list" where
  "dict_update d [] = d"
| "dict_update d ((k, v) # e) = dict_update (dict_set k v d) e"

definition dict_del :: "'k \<Rightarrow> ('k \<times> 'v) list \<Rightarrow> ('k \<times> 'v) list" where
  "dict_del k d = filter (\<lambda>kv. fst kv \<noteq> k) d"

subsection \<open>Operators on JSON values\<close>

fun starts_with :: "'a list \<Rightarrow> 'a list \<Rightarrow> bool" where
  "starts_with [] s = True"
| "starts_with (c # cs) [] = False"
| "starts_with (c # cs) (x # xs) = (c = x \<and> starts_with cs xs)"

fun str_contains :: "'a list \<Rightarrow> 'a list \<Rightarrow> bool" where
  "str_contains k [] = (k = [])"
| "str_contains k (x # xs) = (starts_with k (x # xs) \<or> str_contains k xs)"

text \<open>
  \<^verbatim>\<open>k in v\<close> for a str \<open>k\<close>: key membership in a dict, element membership in a
  list, substring test in a str, \<^verbatim>\<open>TypeError\<close> for a value that is not iterable.
\<close>

fun py_in :: "pystr \<Rightarrow> json \<Rightarrow> error + bool" where
  "py_in k (JObj d) = Inr (map_of d k \<noteq> None)"
| "py_in k (JList xs) = Inr (JStr k \<in> set xs)"
| "py_in k (JStr s) = Inr (str_contains k s)"
| "py_in k v = Inl TypeError"

text \<open>\<^verbatim>\<open>xs[i]\<close> on a list or str: \<open>-1\<close> is the last position, \<open>-len(xs)\<close> the first.\<close>

definition seq_index :: "'a list \<Rightarrow> int \<Rightarrow> error + 'a" where
  "seq_index xs i =
     (if 0 \<le> i \<and> i < int (length xs) then Inr (xs ! nat i)
      else if i < 0 \<and> - int (length xs) \<le> i then Inr (xs ! nat (int (length xs) + i))
      else Inl IndexError)"

text \<open>
  \<^verbatim>\<open>v[k]\<close>. A dict raises \<^verbatim>\<open>KeyError\<close> for a missing key (its keys are all
  strings, so no other hashable key is present) and \<^verbatim>\<open>TypeError\<close> for an
  unhashable one; a list or str takes an int (or bool) index.
\<close>

fun subscript :: "json \<Rightarrow> json \<Rightarrow> error + json" where
  "subscript (JObj d) (JStr k) =
     (case map_of d k of None \<Rightarrow> Inl (KeyError (JStr k)) | Some v \<Rightarrow> Inr v)"
| "subscript (JObj d) (JList ks) = Inl TypeError"
| "subscript (JObj d) (JObj ks) = Inl TypeError"
| "subscript (JObj d) k = Inl (KeyError k)"
| "subscript (JList xs) (JInt i) = seq_index xs i"
| "subscript (JList xs) (JBool b) = seq_index xs (if b then 1 else 0)"
| "subscript (JList xs) k = Inl TypeError"
| "subscript (JStr s) (JInt i) = bnd (seq_index s i) (\<lambda>c. Inr (JStr [c]))"
| "subscript (JStr s) (JBool b) =
     bnd (seq_index s (if b then 1 else 0)) (\<lambda>c. Inr (JStr [c]))"
| "subscript (JStr s) k = Inl TypeError"
| "subscript v k = Inl TypeError"

fun py_len :: "json \<Rightarrow> error + nat" where
  "py_len (JStr s) = Inr (length s)"
| "py_len (JList xs) = Inr (length xs)"
| "py_len (JObj d) = Inr (length d)"
| "py_len v = Inl TypeError"

text \<open>
  \<^verbatim>\<open>v.pop(k)\<close> for a str \<open>k\<close>: a dict gives the value and loses the key, or raises
  \<^verbatim>\<open>KeyError\<close>; \<^verbatim>\<open>list.pop\<close> wants an integer; other values have no \<^verbatim>\<open>pop\<close>.
\<close>

fun py_pop :: "json \<Rightarrow> pystr \<Rightarrow> error + (json \<times> json)" where
  "py_pop (JObj d) k =
     (case map_of d k of
        None \<Rightarrow> Inl (KeyError (JStr k))
      | Some v \<Rightarrow> Inr (v, JObj (dict_del k d)))"
| "py_pop (JList xs) k = Inl TypeError"
| "py_pop v k = Inl AttributeError"

text \<open>Iterating a value, as a comprehension does: a dict yields its keys, a str its characters.\<close>

fun py_iter :: "json \<Rightarrow> error + json list" where
  "py_iter (JList xs) = Inr xs"
| "py_iter (JObj d) = Inr (map (\<lambda>kv. JStr (fst kv)) d)"
| "py_iter (JStr s) = Inr (map (\<lambda>c. JStr [c]) s)"
| "py_iter v = Inl TypeError"

text \<open>\<^verbatim>\<open>**v\<close> inside a dict display: the items of a dict, \<^verbatim>\<open>TypeError\<close> otherwise.\<close>

fun py_items :: "json \<Rightarrow> error + dict" where
  "py_items (JObj d) = Inr d"
| "py_items v = Inl TypeError"

section \<open>Codecs and digests\<close>

text \<open>
  \<^verbatim>\<open>str.encode\<close> raises \<^verbatim>\<open>UnicodeEncodeError\<close> as soon as one character has no
  encoding.
\<close>

fun encode_with :: "(nat \<Rightarrow> byte list option) \<Rightarrow> pystr \<Rightarrow> error + byte list" where
  "encode_with f [] = Inr []"
| "encode_with f (c # cs) =
     (case f c of
        None \<Rightarrow> Inl UnicodeEncodeError
      | Some bs \<Rightarrow> bnd (encode_with f cs) (\<lambda>rest. Inr (bs @ rest)))"

text \<open>
  The code page windows-1251 (Python's \<^verbatim>\<open>cp1251\<close>): ASCII as it is, the Russian
  alphabet U+0410..U+044F at 0xC0..0xFF, and the characters of 0x80..0xBF by table
  (0x98 is unassigned).
\<close>

definition cp1251_table :: "(nat \<times> nat) list" where
  "cp1251_table =
    [(1026, 128), (1027, 129), (8218, 130), (1107, 131), (8222, 132), (8230, 133),
     (8224, 134), (8225, 135), (8364, 136), (8240, 137), (1033, 138), (8249, 139),
     (1034, 140), (1036, 141), (1035, 142), (1039, 143), (1106, 144), (8216, 145),
     (8217, 146), (8220, 147), (8221, 148), (8226, 149), (8211, 150), (8212, 151),
     (8482, 153), (1113, 154), (8250, 155), (1114, 156), (1116, 157), (1115, 158),
     (1119, 159), (160, 160), (1038, 161), (1118, 162), (1032, 163), (164, 164),
     (1168, 165), (166, 166), (167, 167), (1025, 168), (169, 169), (1028, 170),
     (171, 171), (172, 172), (173, 173), (174, 174), (1031, 175), (176, 176),
     (177, 177), (1030, 178), (1110, 179), (1169, 180), (181, 181), (182, 182),
     (183, 183), (1105, 184), (8470, 185), (1108, 186), (187, 187), (1112, 188),
     (1029, 189), (1109, 190), (1111, 191)]"

definition cp1251_char :: "nat \<Rightarrow> byte list option" where
  "cp1251_char c =
     (if c < 128 then Some [of_nat c]
      else if 1040 \<le> c \<and> c \<le> 1103 then Some [of_nat (c - 848)]
      else map_option (\<lambda>b. [of_nat b]) (map_of cp1251_table c))"

definition utf8_char :: "nat \<Rightarrow> byte list option" where
  "utf8_char c =
     (if c < 128 then Some [of_nat c]
      else if c < 2048 then Some [of_nat (192 + c div 64), of_nat (128 + c mod 64)]
      else if 55296 \<le> c \<and> c \<le> 57343 then None
      else if c < 65536 then
        Some [of_nat (224 + c div 4096), of_nat (128 + c div 64 mod 64),
              of_nat (128 + c mod 64)]
      else if c < 1114112 then
        Some [of_nat (240 + c div 262144), of_nat (128 + c div 4096 mod 64),
              of_nat (128 + c div 64 mod 64), of_nat (128 + c mod 64)]
      else None)"

text \<open>\<^verbatim>\<open>s.encode("windows-1251")\<close> and \<^verbatim>\<open>s.encode()\<close> (UTF-8).\<close>

definition encode_windows_1251 :: "pystr \<Rightarrow> error + byte list" where
  "encode_windows_1251 s = encode_with cp1251_char s"

definition encode_utf8 :: "pystr \<Rightarrow> error + byte list" where
  "encode_utf8 s = encode_with utf8_char s"

text \<open>\<^verbatim>\<open>v.encode()\<close> on a JSON value: only a str has the method.\<close>

fun py_encode :: "json \<Rightarrow> error + byte list" where
  "py_encode (JStr s) = encode_utf8 s"
| "py_encode v = Inl AttributeError"

text \<open>\<^verbatim>\<open>hexdigest()\<close>: two lower-case hexadecimal digits for each byte of the digest.\<close>

definition hex_digit :: "nat \<Rightarrow> nat" where
  "hex_digit n = (if n < 10 then 48 + n else 87 + n)"

definition hexdigest :: "byte list \<Rightarrow> pystr" where
  "hexdigest bs = concat (map (\<lambda>b. [hex_digit (unat b div 16), hex_digit (unat b mod 16)]) bs)"

text \<open>
  Lines 91 to 93 of \<^verbatim>\<open>_login\<close>. The digest function \<^verbatim>\<open>hashlib.md5\<close> is a
  parameter (from bytes to the 16 bytes of the digest); \<open>salt\<close> is the value popped
  from the \<^verbatim>\<open>auth/getdata\<close> payload. The result is \<open>(pw, pw2)\<close>.
\<close>

definition login_hash ::
  "(byte list \<Rightarrow> byte list) \<Rightarrow> pystr \<Rightarrow> json \<Rightarrow> error + (pystr \<times> pystr)" where
  "login_hash md5 password salt =
     bnd (encode_windows_1251 password) (\<lambda>password_bytes.
     bnd (encode_utf8 (hexdigest (md5 password_bytes))) (\<lambda>encoded_password.
     bnd (py_encode salt) (\<lambda>salt_bytes.
       let pw2 = hexdigest (md5 (salt_bytes @ encoded_password));
           pw = take (length password) pw2
       in Inr (pw, pw2))))"

section \<open>Dates\<close>

text \<open>
  A \<^verbatim>\<open>datetime.date\<close> is represented by its proleptic Gregorian ordinal
  (\<^verbatim>\<open>toordinal()\<close>: day 1 is 0001-01-01), on which Python defines comparison and
  arithmetic; the valid ordinals are \<open>1..max_ordinal\<close> (9999-12-31).
\<close>

datatype date = Date (toordinal: int)

definition max_ordinal :: int where
  "max_ordinal = 3652059"

definition valid_date :: "date \<Rightarrow> bool" where
  "valid_date d = (1 \<le> toordinal d \<and> toordinal d \<le> max_ordinal)"

text \<open>\<^verbatim>\<open>d.weekday()\<close>: Monday is 0, Sunday is 6.\<close>

definition weekday :: "date \<Rightarrow> int" where
  "weekday d = (toordinal d + 6) mod 7"

text \<open>
  \<^verbatim>\<open>d + timedelta(days=n)\<close> and \<^verbatim>\<open>d - timedelta(days=n)\<close>: \<^verbatim>\<open>OverflowError\<close>
  when the result is not a valid date.
\<close>

definition date_add :: "date \<Rightarrow> int \<Rightarrow> error + date" where
  "date_add d n =
     (let ordinal = toordinal d + n
      in if 0 < ordinal \<and> ordinal \<le> max_ordinal then Inr (Date ordinal)
         else Inl OverflowError)"

definition date_sub :: "date \<Rightarrow> int \<Rightarrow> error + date" where
  "date_sub d n = date_add d (- n)"

definition days_in_month :: "int list" where
  "days_in_month = [-1, 31, 28, 31, 30, 31, 30, 31, 31, 30, 31, 30, 31]"

definition days_before_month :: "int list" where
  "days_before_month = [-1, 0, 31, 59, 90, 120, 151, 181, 212, 243, 273, 304, 334]"

text \<open>Year, month and day of an ordinal (the standard library's \<^verbatim>\<open>_ord2ymd\<close>).\<close>

definition ord2ymd :: "int \<Rightarrow> int \<times> int \<times> int" where
  "ord2ymd ordinal =
     (let n = ordinal - 1;
          n400 = n div 146097; n = n mod 146097;
          n100 = n div 36524; n = n mod 36524;
          n4 = n div 1461; n = n mod 1461;
          n1 = n div 365; n = n mod 365;
          year = n400 * 400 + 1 + n100 * 100 + n4 * 4 + n1
      in if n1 = 4 \<or> n100 = 4 then (year - 1, 12, 31)
         else
           let leapyear = (n1 = 3 \<and> (n4 \<noteq> 24 \<or> n100 = 3));
               month = (n + 50) div 32;
               preceding = days_before_month ! nat month
                 + (if month > 2 \<and> leapyear then 1 else 0)
           in if preceding > n then
                let month' = month - 1;
                    preceding' = preceding
                      - (days_in_month ! nat month'
                         + (if month' = 2 \<and> leapyear then 1 else 0))
                in (year, month', n - preceding' + 1)
              else (year, month, n - preceding + 1))"

text \<open>\<^verbatim>\<open>str(n)\<close> for a natural number and for an integer; \<^verbatim>\<open>"%0wd"\<close> pads with zeros.\<close>

fun str_nat :: "nat \<Rightarrow> pystr" where
  "str_nat n = (if n < 10 then [48 + n] else str_nat (n div 10) @ [48 + n mod 10])"

declare str_nat.simps [simp del]

definition str_int :: "int \<Rightarrow> pystr" where
  "str_int i = (if i < 0 then 45 # str_nat (nat (- i)) else str_nat (nat i))"

definition zero_pad :: "nat \<Rightarrow> int \<Rightarrow> pystr" where
  "zero_pad w i =
     (if i < 0 then 45 # replicate (w - 1 - length (str_nat (nat (- i)))) 48 @ str_nat (nat (- i))
      else replicate (w - length (str_nat (nat i))) 48 @ str_nat (nat i))"

text \<open>\<^verbatim>\<open>d.isoformat()\<close>: \<^verbatim>\<open>"%04d-%02d-%02d" % (year, month, day)\<close>.\<close>

definition isoformat :: "date \<Rightarrow> pystr" where
  "isoformat d =
     (case ord2ymd (toordinal d) of
        (y, m, dd) \<Rightarrow> zero_pad 4 y @ [45] @ zero_pad 2 m @ [45] @ zero_pad 2 dd)"

section \<open>The HTTP client\<close>

text \<open>
  The source talks to the server through one \<^verbatim>\<open>httpx.AsyncClient\<close>. A request
  records what the call passes (\<^verbatim>\<open>params=\<close>, \<^verbatim>\<open>data=\<close>, \<^verbatim>\<open>json=\<close>) and the
  client-level headers in force when it is sent. A response has its raw body and the
  value its \<^verbatim>\<open>json()\<close> method yields (\<open>None\<close> when the body is not JSON).
\<close>

datatype http_verb = GET | POST

record request =
  verb :: http_verb
  path :: pystr
  params :: dict
  form_data :: "dict option"
  json_data :: "json option"
  sent_headers :: dict

record response =
  body :: pystr
  json_value :: "json option"
  set_cookies :: "(pystr \<times> pystr) list"

text \<open>
  The client: base URL, client-level headers, cookie jar, and the requests issued so
  far, oldest first. The server is a parameter: from the requests issued before and the
  request being sent it gives a response or a transport failure.
\<close>

record async_client =
  base_url :: pystr
  headers :: dict
  cookies :: "(pystr \<times> pystr) list"
  issued :: "request list"

type_synonym server = "request list \<Rightarrow> request \<Rightarrow> error + response"

definition send :: "server \<Rightarrow> request \<Rightarrow> async_client \<Rightarrow> (error + response) \<times> async_client" where
  "send srv r c =
     (let r' = r\<lparr>sent_headers := headers c\<rparr>
      in (srv (issued c) r', c\<lparr>issued := issued c @ [r']\<rparr>))"

text \<open>\<^verbatim>\<open>client.get(url, params=ps)\<close> and \<^verbatim>\<open>client.post(url, params=ps, data=d, json=j)\<close>.\<close>

definition client_get :: "server \<Rightarrow> pystr \<Rightarrow> dict \<Rightarrow> async_client \<Rightarrow> (error + response) \<times> async_client" where
  "client_get srv url ps =
     send srv \<lparr>verb = GET, path = url, params = ps, form_data = None, json_data = None,
               sent_headers = []\<rparr>"

definition client_post ::
  "server \<Rightarrow> pystr \<Rightarrow> dict \<Rightarrow> dict option \<Rightarrow> json option \<Rightarrow> async_client
     \<Rightarrow> (error + response) \<times> async_client" where
  "client_post srv url ps d j =
     send srv \<lparr>verb = POST, path = url, params = ps, form_data = d, json_data = j,
               sent_headers = []\<rparr>"

text \<open>\<^verbatim>\<open>client.cookies.extract_cookies(response)\<close> and \<^verbatim>\<open>client.headers[k] = v\<close>.\<close>

definition extract_cookies :: "response \<Rightarrow> async_client \<Rightarrow> async_client" where
  "extract_cookies r c = c\<lparr>cookies := dict_update (cookies c) (set_cookies r)\<rparr>"

definition set_header :: "pystr \<Rightarrow> json \<Rightarrow> async_client \<Rightarrow> async_client" where
  "set_header k v c = c\<lparr>headers := dict_set k v (headers c)\<rparr>"

text \<open>
  Modelled from the spec: \<^verbatim>\<open>netschoolapi.utils._json_or_panic\<close>, the Response
  Decoder, is not among the sources. It parses the response as JSON and, if parsing
  fails, raises the typed invalid-response error that includes the raw body.
\<close>

definition json_or_panic :: "response \<Rightarrow> error + json" where
  "json_or_panic r =
     (case json_value r of None \<Rightarrow> Inl (InvalidResponse (body r)) | Some j \<Rightarrow> Inr j)"

section \<open>The session client\<close>

text \<open>
  The fields of a \<^verbatim>\<open>NetSchoolAPI\<close> object (the source's \<^verbatim>\<open>_client\<close>,
  \<^verbatim>\<open>_user_name\<close>, \<^verbatim>\<open>_password\<close>, \<^verbatim>\<open>_school\<close>, \<^verbatim>\<open>_user_id\<close>, \<^verbatim>\<open>_year_id\<close>).
\<close>

type_synonym school = "pystr \<times> pystr \<times> pystr \<times> pystr \<times> pystr"

record netschoolapi =
  client :: async_client
  user_name :: pystr
  password :: pystr
  school :: school
  user_id :: json
  year_id :: json

text \<open>
  What the source takes from outside: the server, \<^verbatim>\<open>hashlib.md5\<close>,
  \<^verbatim>\<open>date.today()\<close>, and the parts of the package that are not among the sources.

  Modelled from the spec: \<^verbatim>\<open>netschoolapi.login_form._get_login_form\<close>, the Login-Form
  Resolver, is a parameter. Given the client and the school selector it fetches the
  portal's login page through the client and returns a mapping of field name to value,
  or fails. The \<^verbatim>\<open>from_dict\<close> constructors of \<^verbatim>\<open>netschoolapi.data\<close> are parameters
  as well: each turns a JSON value into a record of type \<open>'d\<close> or fails.
\<close>

record 'd env =
  server_of :: server
  md5 :: "byte list \<Rightarrow> byte list"
  today :: date
  get_login_form :: "async_client \<Rightarrow> school \<Rightarrow> (error + dict) \<times> async_client"
  diary_from_dict :: "json \<Rightarrow> error + 'd"
  announcement_from_dict :: "json \<Rightarrow> error + 'd"
  detailed_assignment_from_dict :: "json \<Rightarrow> error + 'd"
  attachment_from_dict :: "json \<Rightarrow> error + 'd"

text \<open>The only field of an \<^verbatim>\<open>Assignment\<close> the client reads is its \<^verbatim>\<open>id\<close>.\<close>

record assignment =
  assignment_id :: int

subsection \<open>Programs: state and exceptions\<close>

text \<open>
  A method is a function from the object's state to a result, an exception or a value,
  and the state it leaves; the state survives an exception.
\<close>

type_synonym ('s, 'a) prog = "'s \<Rightarrow> (error + 'a) \<times> 's"

definition ret :: "'a \<Rightarrow> ('s, 'a) prog" where
  "ret x = (\<lambda>s. (Inr x, s))"

definition raise :: "error \<Rightarrow> ('s, 'a) prog" where
  "raise e = (\<lambda>s. (Inl e, s))"

definition bindE :: "('s, 'a) prog \<Rightarrow> ('a \<Rightarrow> ('s, 'b) prog) \<Rightarrow> ('s, 'b) prog" where
  "bindE m f = (\<lambda>s. case m s of (Inl e, s') \<Rightarrow> (Inl e, s') | (Inr x, s') \<Rightarrow> f x s')"

definition lift :: "error + 'a \<Rightarrow> ('s, 'a) prog" where
  "lift m = (\<lambda>s. (m, s))"

definition reading :: "('s \<Rightarrow> 'a) \<Rightarrow> ('s, 'a) prog" where
  "reading f = (\<lambda>s. (Inr (f s), s))"

definition modify :: "('s \<Rightarrow> 's) \<Rightarrow> ('s, unit) prog" where
  "modify f = (\<lambda>s. (Inr (), f s))"

text \<open>
  A step on the HTTP client, run on the object's \<^verbatim>\<open>_client\<close>. The source wraps every
  method body in \<^verbatim>\<open>async with self._client as client\<close>, which binds \<open>client\<close> to the
  same client object; entering and leaving that block is taken to change nothing the
  methods read.
\<close>

definition on_client ::
  "(async_client \<Rightarrow> (error + 'a) \<times> async_client) \<Rightarrow> (netschoolapi, 'a) prog" where
  "on_client f = (\<lambda>s. case f (client s) of (r, c) \<Rightarrow> (r, s\<lparr>client := c\<rparr>))"

text \<open>\<^verbatim>\<open>[f(a) for a in xs]\<close> with an \<open>f\<close> that may raise.\<close>

fun map_raising :: "('a \<Rightarrow> error + 'b) \<Rightarrow> 'a list \<Rightarrow> error + 'b list" where
  "map_raising f [] = Inr []"
| "map_raising f (x # xs) =
     bnd (f x) (\<lambda>y. bnd (map_raising f xs) (\<lambda>ys. Inr (y # ys)))"

subsection \<open>Construction\<close>

definition rstrip_slash :: "pystr \<Rightarrow> pystr" where
  "rstrip_slash s = rev (dropWhile (\<lambda>c. c = 47) (rev s))"

definition init :: "pystr \<Rightarrow> pystr \<Rightarrow> pystr \<Rightarrow> school \<Rightarrow> netschoolapi" where
  "init url un pwd sch =
     \<lparr>client =
        \<lparr>base_url = rstrip_slash url @ ascii ''/webapi'',
         headers = [(ascii ''user-agent'', JStr (ascii ''NetSchoolAPI/4.0.2'')),
                    (ascii ''referer'', JStr url)],
         cookies = [],
         issued = []\<rparr>,
      user_name = un,
      password = pwd,
      school = sch,
      user_id = JNull,
      year_id = JNull\<rparr>"

subsection \<open>Data retrieval\<close>

definition get_diary :: "'d env \<Rightarrow> date option \<Rightarrow> date option \<Rightarrow> (netschoolapi, 'd) prog" where
  "get_diary env week_start week_end =
     bindE (lift (case week_start of
                    None \<Rightarrow> date_sub (today env) (weekday (today env))
                  | Some d \<Rightarrow> Inr d)) (\<lambda>week_start'.
     bindE (lift (case week_end of
                    None \<Rightarrow> date_add week_start' 5
                  | Some d \<Rightarrow> Inr d)) (\<lambda>week_end'.
     bindE (reading user_id) (\<lambda>uid.
     bindE (reading year_id) (\<lambda>yid.
     bindE (on_client (client_get (server_of env) (ascii ''student/diary'')
              [(ascii ''studentId'', uid),
               (ascii ''weekStart'', JStr (isoformat week_start')),
               (ascii ''weekEnd'', JStr (isoformat week_end')),
               (ascii ''yearId'', yid)])) (\<lambda>r.
     bindE (lift (json_or_panic r)) (\<lambda>dairy.
     lift (diary_from_dict env dairy)))))))"

definition get_announcements :: "'d env \<Rightarrow> json \<Rightarrow> (netschoolapi, 'd list) prog" where
  "get_announcements env take_arg =
     bindE (on_client (client_get (server_of env) (ascii ''announcements'')
              [(ascii ''take'', take_arg)])) (\<lambda>r.
     bindE (lift (json_or_panic r)) (\<lambda>announcements.
     bindE (lift (py_iter announcements)) (\<lambda>items.
     lift (map_raising (announcement_from_dict env) items))))"

definition get_details :: "'d env \<Rightarrow> assignment \<Rightarrow> (netschoolapi, 'd) prog" where
  "get_details env a =
     bindE (on_client (client_get (server_of env)
              (ascii ''student/diary/assigns/'' @ str_int (assignment_id a)) [])) (\<lambda>r.
     bindE (lift (json_or_panic r)) (\<lambda>details.
     lift (detailed_assignment_from_dict env details)))"

definition get_attachments :: "'d env \<Rightarrow> assignment list \<Rightarrow> (netschoolapi, 'd list) prog" where
  "get_attachments env assignments =
     bindE (reading user_id) (\<lambda>uid.
     bindE (on_client (client_post (server_of env) (ascii ''student/diary/get-attachments'')
              [(ascii ''studentId'', uid)]
              None
              (Some (JObj [(ascii ''assignId'',
                            JList (map (\<lambda>a. JInt (assignment_id a)) assignments))])))) (\<lambda>r.
     bindE (lift (json_or_panic r)) (\<lambda>attachments.
     bindE (lift (py_iter attachments)) (\<lambda>items.
     lift (map_raising (attachment_from_dict env) items)))))"

subsection \<open>Login and logout\<close>

text \<open>
  The \<^verbatim>\<open>data=\<close> argument of the login POST, a dict display:
  \<^verbatim>\<open>{"logintype": 1, **form, "un": un, "pw": pw, "pw2": pw2, **login_data}\<close>.
  Its entries are stored from left to right.
\<close>

definition login_body :: "dict \<Rightarrow> pystr \<Rightarrow> pystr \<Rightarrow> pystr \<Rightarrow> dict \<Rightarrow> dict" where
  "login_body form un pw pw2 login_data =
     dict_update
       (dict_set (ascii ''pw2'') (JStr pw2)
         (dict_set (ascii ''pw'') (JStr pw)
           (dict_set (ascii ''un'') (JStr un)
             (dict_update [(ascii ''logintype'', JInt 1)] form))))
       login_data"

text \<open>Lines 85 to 105 of \<^verbatim>\<open>_login\<close>: the handshake up to the decoded login response.\<close>

definition login_request :: "'d env \<Rightarrow> (netschoolapi, json) prog" where
  "login_request env =
     bindE (on_client (client_get (server_of env) (ascii ''logindata'') [])) (\<lambda>r0.
     bindE (modify (\<lambda>s. s\<lparr>client := extract_cookies r0 (client s)\<rparr>)) (\<lambda>_.
     bindE (on_client (client_post (server_of env) (ascii ''auth/getdata'') [] None None)) (\<lambda>r1.
     bindE (lift (json_or_panic r1)) (\<lambda>login_data.
     bindE (lift (py_pop login_data (ascii ''salt''))) (\<lambda>(salt, login_data').
     bindE (reading password) (\<lambda>pwd.
     bindE (lift (login_hash (md5 env) pwd salt)) (\<lambda>(pw, pw2).
     bindE (reading school) (\<lambda>sch.
     bindE (on_client (\<lambda>c. get_login_form env c sch)) (\<lambda>form.
     bindE (reading user_name) (\<lambda>un.
     bindE (lift (py_items login_data')) (\<lambda>login_items.
     bindE (on_client (client_post (server_of env) (ascii ''login'') []
              (Some (login_body form un pw pw2 login_items)) None)) (\<lambda>r2.
     lift (json_or_panic r2)))))))))))))"

text \<open>Lines 107 to 122 of \<^verbatim>\<open>_login\<close>: what is done with the decoded login response.\<close>

definition login_response :: "'d env \<Rightarrow> json \<Rightarrow> (netschoolapi, unit) prog" where
  "login_response env response =
     bindE (lift (py_in (ascii ''at'') response)) (\<lambda>has_at.
     bindE (if \<not> has_at then
              bindE (lift (subscript response (JStr (ascii ''message'')))) (\<lambda>error_message.
              bindE (lift (py_len error_message)) (\<lambda>n.
                if n = 29 then raise LoginDataError
                else raise (NetSchoolAPIError error_message)))
            else ret ()) (\<lambda>_.
     bindE (lift (subscript response (JStr (ascii ''at'')))) (\<lambda>at.
     bindE (modify (\<lambda>s. s\<lparr>client := set_header (ascii ''at'') at (client s)\<rparr>)) (\<lambda>_.
     bindE (on_client (client_get (server_of env) (ascii ''student/diary/init'') [])) (\<lambda>r3.
     bindE (lift (json_or_panic r3)) (\<lambda>diary.
     bindE (lift (subscript diary (JStr (ascii ''students'')))) (\<lambda>students.
     bindE (lift (subscript diary (JStr (ascii ''currentStudentId'')))) (\<lambda>current.
     bindE (lift (subscript students current)) (\<lambda>student.
     bindE (lift (subscript student (JStr (ascii ''studentId'')))) (\<lambda>sid.
     bindE (modify (\<lambda>s. s\<lparr>user_id := sid\<rparr>)) (\<lambda>_.
     bindE (on_client (client_get (server_of env) (ascii ''context'') [])) (\<lambda>r4.
     bindE (lift (json_or_panic r4)) (\<lambda>ctx.
     bindE (lift (subscript ctx (JStr (ascii ''schoolYearId'')))) (\<lambda>yid.
     modify (\<lambda>s. s\<lparr>year_id := yid\<rparr>)))))))))))))))"

definition login :: "'d env \<Rightarrow> (netschoolapi, unit) prog" where
  "login env = bindE (login_request env) (login_response env)"

text \<open>\<^verbatim>\<open>_logout\<close>: the response to the sign-out POST is dropped.\<close>

definition logout :: "'d env \<Rightarrow> (netschoolapi, unit) prog" where
  "logout env =
     bindE (on_client (client_post (server_of env) (ascii ''auth/logout'') [] None None))
       (\<lambda>r. ret ())"

subsection \<open>The scoped session\<close>

text \<open>
  \<^verbatim>\<open>__aenter__\<close> logs in and returns the object; \<^verbatim>\<open>__aexit__\<close> takes the exception the
  body raised, if any, logs out and returns \<^verbatim>\<open>None\<close>.
\<close>

definition aenter :: "'d env \<Rightarrow> (netschoolapi, unit) prog" where
  "aenter env = bindE (login env) (\<lambda>u. ret ())"

definition aexit :: "'d env \<Rightarrow> error option \<Rightarrow> (netschoolapi, unit) prog" where
  "aexit env exc = logout env"

text \<open>
  \<^verbatim>\<open>async with NetSchoolAPI(...) as api: body\<close>, as Python runs it: when
  \<^verbatim>\<open>__aenter__\<close> raises, neither the body nor \<^verbatim>\<open>__aexit__\<close> runs; otherwise the body
  runs and then \<^verbatim>\<open>__aexit__\<close>, whose exception, if it raises, replaces the outcome of
  the body; its return value \<^verbatim>\<open>None\<close> suppresses nothing.
\<close>

definition async_with :: "'d env \<Rightarrow> (netschoolapi, 'a) prog \<Rightarrow> (netschoolapi, 'a) prog" where
  "async_with env block =
     (\<lambda>s. case aenter env s of
        (Inl e, s1) \<Rightarrow> (Inl e, s1)
      | (Inr u, s1) \<Rightarrow>
          (case block s1 of
             (outcome, s2) \<Rightarrow>
               (case aexit env (case outcome of Inl e \<Rightarrow> Some e | Inr x \<Rightarrow> None) s2 of
                  (Inl e', s3) \<Rightarrow> (Inl e', s3)
                | (Inr u', s3) \<Rightarrow> (outcome, s3))))"

section \<open>Observing a run\<close>

text \<open>The object after the request \<open>r\<close> has been sent with the client-level headers.\<close>

definition logged :: "request \<Rightarrow> netschoolapi \<Rightarrow> netschoolapi" where
  "logged r s =
     s\<lparr>client := (client s)\<lparr>issued := issued (client s)
                                  @ [r\<lparr>sent_headers := headers (client s)\<rparr>]\<rparr>\<rparr>"

text \<open>The requests of the source, as the methods build them.\<close>

definition attachments_request :: "json \<Rightarrow> assignment list \<Rightarrow> request" where
  "attachments_request uid assignments =
     \<lparr>verb = POST, path = ascii ''student/diary/get-attachments'',
      params = [(ascii ''studentId'', uid)], form_data = None,
      json_data = Some (JObj [(ascii ''assignId'',
                               JList (map (\<lambda>a. JInt (assignment_id a)) assignments))]),
      sent_headers = []\<rparr>"

definition logout_request :: request where
  "logout_request =
     \<lparr>verb = POST, path = ascii ''auth/logout'', params = [], form_data = None,
      json_data = None, sent_headers = []\<rparr>"

subsection \<open>A scripted server\<close>

text \<open>
  A server that answers by path from a table, used to run the client on concrete
  exchanges; a path that is not in the table fails at the transport level.
\<close>

definition scripted :: "(pystr \<times> response) list \<Rightarrow> server" where
  "scripted answers history r =
     (case map_of answers (path r) of
        None \<Rightarrow> Inl (TransportError (path r))
      | Some a \<Rightarrow> Inr a)"

definition json_reply :: "json \<Rightarrow> response" where
  "json_reply j = \<lparr>body = ascii ''(json)'', json_value = Some j, set_cookies = []\<rparr>"

definition html_reply :: response where
  "html_reply = \<lparr>body = ascii ''<html>'', json_value = None, set_cookies = []\<rparr>"

definition toy_md5 :: "byte list \<Rightarrow> byte list" where
  "toy_md5 bs =
     (let b = of_nat (length bs) in [b, b, b, b, b, b, b, b, b, b, b, b, b, b, b, b])"

definition demo_env :: "(pystr \<times> response) list \<Rightarrow> json env" where
  "demo_env answers =
     \<lparr>server_of = scripted answers,
      md5 = toy_md5,
      today = Date 739924,
      get_login_form = (\<lambda>c sch. (Inr [(ascii ''scid'', JStr (fst sch))], c)),
      diary_from_dict = Inr,
      announcement_from_dict = Inr,
      detailed_assignment_from_dict = Inr,
      attachment_from_dict = Inr\<rparr>"

definition demo_api :: netschoolapi where
  "demo_api =
     init (ascii ''https://sgo.example/'') (ascii ''ivanov'') (ascii ''abc123'')
       (ascii ''RU'', ascii ''77'', ascii ''1'', ascii ''2'', ascii ''3'')"

text \<open>
  The claimed value of \<open>pw2\<close>, written after the words of the specification: the
  lower-case hex digest of the salt's bytes followed by the ASCII bytes of the lower-case
  hex digest of the password's bytes.
\<close>

definition spec_pw2 :: "(byte list \<Rightarrow> byte list) \<Rightarrow> byte list \<Rightarrow> byte list \<Rightarrow> pystr" where
  "spec_pw2 digest salt_bytes password_bytes =
     hexdigest (digest (salt_bytes @ map of_nat (hexdigest (digest password_bytes))))"

definition diary_request :: "json \<Rightarrow> json \<Rightarrow> date \<Rightarrow> date \<Rightarrow> request" where
  "diary_request uid yid week_start week_end =
     \<lparr>verb = GET, path = ascii ''student/diary'',
      params = [(ascii ''studentId'', uid),
                (ascii ''weekStart'', JStr (isoformat week_start)),
                (ascii ''weekEnd'', JStr (isoformat week_end)),
                (ascii ''yearId'', yid)],
      form_data = None, json_data = None, sent_headers = []\<rparr>"

text \<open>The answers of a portal on which every step of a login succeeds.\<close>

definition good_answers :: "(pystr \<times> response) list" where
  "good_answers =
     [(ascii ''logindata'', html_reply),
      (ascii ''auth/getdata'',
         json_reply (JObj [(ascii ''lt'', JStr (ascii ''1'')), (ascii ''ver'', JStr (ascii ''2'')),
                           (ascii ''salt'', JStr (ascii ''S''))])),
      (ascii ''login'', json_reply (JObj [(ascii ''at'', JStr (ascii ''token123''))])),
      (ascii ''student/diary/init'',
         json_reply (JObj [(ascii ''students'', JList [JObj [(ascii ''studentId'', JInt 42)]]),
                           (ascii ''currentStudentId'', JInt 0)])),
      (ascii ''context'', json_reply (JObj [(ascii ''schoolYearId'', JInt 7)])),
      (ascii ''auth/logout'', html_reply)]"

text \<open>The requests of \<^verbatim>\<open>_login\<close>, and the object as the handshake leaves it step by step.\<close>

definition logindata_request :: request where
  "logindata_request =
     \<lparr>verb = GET, path = ascii ''logindata'', params = [], form_data = None,
      json_data = None, sent_headers = []\<rparr>"

definition getdata_request :: request where
  "getdata_request =
     \<lparr>verb = POST, path = ascii ''auth/getdata'', params = [], form_data = None,
      json_data = None, sent_headers = []\<rparr>"

definition login_post :: "dict \<Rightarrow> request" where
  "login_post entries =
     \<lparr>verb = POST, path = ascii ''login'', params = [], form_data = Some entries,
      json_data = None, sent_headers = []\<rparr>"

definition init_request :: request where
  "init_request =
     \<lparr>verb = GET, path = ascii ''student/diary/init'', params = [], form_data = None,
      json_data = None, sent_headers = []\<rparr>"

definition context_request :: request where
  "context_request =
     \<lparr>verb = GET, path = ascii ''context'', params = [], form_data = None,
      json_data = None, sent_headers = []\<rparr>"

definition after_logindata :: "response \<Rightarrow> netschoolapi \<Rightarrow> netschoolapi" where
  "after_logindata r0 s =
     (logged logindata_request s)
       \<lparr>client := extract_cookies r0 (client (logged logindata_request s))\<rparr>"

definition after_getdata :: "response \<Rightarrow> netschoolapi \<Rightarrow> netschoolapi" where
  "after_getdata r0 s = logged getdata_request (after_logindata r0 s)"

text \<open>What the server answers to \<open>r\<close> when the object \<open>s\<close> sends it.\<close>

definition answer :: "'d env \<Rightarrow> request \<Rightarrow> netschoolapi \<Rightarrow> error + response" where
  "answer env r s =
     server_of env (issued (client s)) (r\<lparr>sent_headers := headers (client s)\<rparr>)"

section \<open>Running programs step by step\<close>

lemma bindE_ret: "bindE (ret x) f = f x"
  by (simp add: bindE_def ret_def)

lemma bindE_raise: "bindE (raise e) f = raise e"
  by (simp add: bindE_def raise_def)

lemma bindE_lift: "bindE (lift m) f = (case m of Inl e \<Rightarrow> raise e | Inr x \<Rightarrow> f x)"
  by (auto simp: bindE_def lift_def raise_def split: sum.splits)

lemma bindE_reading: "bindE (reading g) f s = f (g s) s"
  by (simp add: bindE_def reading_def)

lemma bindE_modify: "bindE (modify g) f s = f () (g s)"
  by (simp add: bindE_def modify_def)

lemma lift_apply: "lift m s = (m, s)"
  by (simp add: lift_def)

lemma raise_apply: "raise e s = (Inl e, s)"
  by (simp add: raise_def)

lemma ret_apply: "ret x s = (Inr x, s)"
  by (simp add: ret_def)

lemma modify_apply: "modify g s = (Inr (), g s)"
  by (simp add: modify_def)

lemma bindE_send:
  "bindE (on_client (send srv r)) f s =
     (case srv (issued (client s)) (r\<lparr>sent_headers := headers (client s)\<rparr>) of
        Inl e \<Rightarrow> (Inl e, logged r s)
      | Inr resp \<Rightarrow> f resp (logged r s))"
  by (simp add: bindE_def on_client_def send_def logged_def Let_def split: sum.splits)

lemmas run_simps =
  bindE_ret bindE_raise bindE_lift bindE_reading bindE_modify bindE_send
  lift_apply raise_apply ret_apply modify_apply client_get_def client_post_def

lemma logged_fields:
  "user_id (logged r s) = user_id s"
  "year_id (logged r s) = year_id s"
  "user_name (logged r s) = user_name s"
  "password (logged r s) = password s"
  "school (logged r s) = school s"
  "headers (client (logged r s)) = headers (client s)"
  "cookies (client (logged r s)) = cookies (client s)"
  "base_url (client (logged r s)) = base_url (client s)"
  "issued (client (logged r s)) = issued (client s) @ [r\<lparr>sent_headers := headers (client s)\<rparr>]"
  by (simp_all add: logged_def)

lemma get_attachments_run:
  "get_attachments env assignments s =
     (bnd (server_of env (issued (client s))
             ((attachments_request (user_id s) assignments)\<lparr>sent_headers := headers (client s)\<rparr>))
        (\<lambda>r. bnd (json_or_panic r) (\<lambda>j. bnd (py_iter j)
           (map_raising (attachment_from_dict env)))),
      logged (attachments_request (user_id s) assignments) s)"
  by (simp add: get_attachments_def attachments_request_def run_simps bnd_def
           split: sum.splits)

lemma logout_run:
  "logout env s =
     (bnd (server_of env (issued (client s))
             (logout_request\<lparr>sent_headers := headers (client s)\<rparr>)) (\<lambda>r. Inr ()),
      logged logout_request s)"
  by (simp add: logout_def logout_request_def run_simps bnd_def split: sum.splits)

subsection \<open>Digests are ASCII text\<close>

lemma encode_with_ascii:
  "\<forall>c \<in> set s. c < 128 \<Longrightarrow> encode_with utf8_char s = Inr (map of_nat s)"
  by (induction s) (simp_all add: utf8_char_def bnd_def)

lemma hex_digit_ascii: "n < 16 \<Longrightarrow> hex_digit n < 128"
  by (simp add: hex_digit_def)

lemma hexdigest_ascii: "\<forall>c \<in> set (hexdigest bs). c < 128"
proof (induction bs)
  case Nil
  show ?case by (simp add: hexdigest_def)
next
  case (Cons b bs)
  have "unat b < 256"
    using unsigned_less [of b, where ?'a = nat] by simp
  then have "unat b div 16 < 16"
    by (simp add: less_mult_imp_div_less)
  moreover have "unat b mod 16 < 16" by simp
  ultimately show ?case
    using Cons by (simp add: hexdigest_def hex_digit_ascii)
qed

lemma encode_utf8_hexdigest: "encode_utf8 (hexdigest bs) = Inr (map of_nat (hexdigest bs))"
  by (simp add: encode_utf8_def encode_with_ascii hexdigest_ascii)

lemma bindE_assoc: "bindE (bindE m f) g = bindE m (\<lambda>x. bindE (f x) g)"
  by (auto simp: bindE_def split: prod.splits sum.splits)

lemma bindE_on_client:
  "bindE (on_client g) f s =
     (case g (client s) of
        (Inl e, c) \<Rightarrow> (Inl e, s\<lparr>client := c\<rparr>)
      | (Inr x, c) \<Rightarrow> f x (s\<lparr>client := c\<rparr>))"
  by (simp add: bindE_def on_client_def split: prod.splits sum.splits)

text \<open>Rules that run a program on a concrete object and a scripted server.\<close>

lemmas eval_simps =
  bindE_assoc bindE_ret bindE_raise bindE_lift bindE_reading bindE_modify bindE_on_client
  lift_apply raise_apply ret_apply modify_apply client_get_def client_post_def send_def
  demo_env_def scripted_def json_reply_def html_reply_def json_or_panic_def
  demo_api_def init_def extract_cookies_def set_header_def login_body_def bnd_def
  dict_del_def ascii_def rstrip_slash_def good_answers_def
  login_def login_request_def login_response_def logout_def
  login_hash_def encode_windows_1251_def encode_utf8_def
  cp1251_char_def utf8_char_def toy_md5_def hexdigest_def hex_digit_def Let_def seq_index_def

lemma get_diary_run:
  "get_diary env (Some week_start) (Some week_end) s =
     (bnd (server_of env (issued (client s))
             ((diary_request (user_id s) (year_id s) week_start week_end)
                \<lparr>sent_headers := headers (client s)\<rparr>))
        (\<lambda>r. bnd (json_or_panic r) (diary_from_dict env)),
      logged (diary_request (user_id s) (year_id s) week_start week_end) s)"
  by (simp add: get_diary_def diary_request_def run_simps bnd_def split: sum.splits)

lemma get_diary_defaults:
  "get_diary env week_start week_end s =
     (case (case week_start of
              None \<Rightarrow> date_sub (today env) (weekday (today env))
            | Some d \<Rightarrow> Inr d) of
        Inl e \<Rightarrow> (Inl e, s)
      | Inr ws \<Rightarrow>
          (case (case week_end of None \<Rightarrow> date_add ws 5 | Some d \<Rightarrow> Inr d) of
             Inl e \<Rightarrow> (Inl e, s)
           | Inr we \<Rightarrow> get_diary env (Some ws) (Some we) s))"
  by (simp add: get_diary_def run_simps split: sum.splits option.splits)

lemma monday_of_week:
  "weekday (Date (toordinal d - weekday d)) = 0"
  "toordinal d - weekday d \<le> toordinal d"
  "toordinal d < toordinal d - weekday d + 7"
  by (simp_all add: weekday_def) presburger+

lemma monday_in_range:
  "valid_date d \<Longrightarrow> 0 < toordinal d - weekday d \<and> toordinal d - weekday d \<le> max_ordinal"
  unfolding valid_date_def weekday_def max_ordinal_def by presburger

lemma bindE_ret_right: "bindE m ret = m"
  by (auto simp: bindE_def ret_def split: prod.splits sum.splits)

subsection \<open>The handshake, step by step\<close>

lemma bindE_send_answer:
  "bindE (on_client (send (server_of env) r)) f s =
     (case answer env r s of
        Inl e \<Rightarrow> (Inl e, logged r s)
      | Inr resp \<Rightarrow> f resp (logged r s))"
  by (simp add: bindE_send answer_def)

lemma bindE_get_login_form:
  "bindE (on_client (\<lambda>c. get_login_form env c sch)) f s =
     (case get_login_form env (client s) sch of
        (Inl e, c) \<Rightarrow> (Inl e, s\<lparr>client := c\<rparr>)
      | (Inr x, c) \<Rightarrow> f x (s\<lparr>client := c\<rparr>))"
  by (rule bindE_on_client)

lemma after_fields:
  "user_id (after_logindata r0 s) = user_id s"
  "year_id (after_logindata r0 s) = year_id s"
  "user_name (after_logindata r0 s) = user_name s"
  "password (after_logindata r0 s) = password s"
  "school (after_logindata r0 s) = school s"
  "user_id (after_getdata r0 s) = user_id s"
  "year_id (after_getdata r0 s) = year_id s"
  "user_name (after_getdata r0 s) = user_name s"
  "password (after_getdata r0 s) = password s"
  "school (after_getdata r0 s) = school s"
  by (simp_all add: after_getdata_def after_logindata_def logged_def)

lemma login_request_getdata:
  assumes "answer env logindata_request s = Inr r0"
  shows "login_request env s =
     (case answer env getdata_request (after_logindata r0 s) of
        Inl e \<Rightarrow> (Inl e, after_getdata r0 s)
      | Inr r1 \<Rightarrow>
         (case json_or_panic r1 of
            Inl e \<Rightarrow> (Inl e, after_getdata r0 s)
          | Inr login_data \<Rightarrow>
             (case py_pop login_data (ascii ''salt'') of
                Inl e \<Rightarrow> (Inl e, after_getdata r0 s)
              | Inr (salt, rest) \<Rightarrow>
                 (case login_hash (md5 env) (password s) salt of
                    Inl e \<Rightarrow> (Inl e, after_getdata r0 s)
                  | Inr (pw, pw2) \<Rightarrow>
                     (case get_login_form env (client (after_getdata r0 s)) (school s) of
                        (Inl e, c) \<Rightarrow> (Inl e, (after_getdata r0 s)\<lparr>client := c\<rparr>)
                      | (Inr form, c) \<Rightarrow>
                         (case py_items rest of
                            Inl e \<Rightarrow> (Inl e, (after_getdata r0 s)\<lparr>client := c\<rparr>)
                          | Inr items \<Rightarrow>
                             (bnd (answer env (login_post (login_body form (user_name s) pw pw2 items))
                                      ((after_getdata r0 s)\<lparr>client := c\<rparr>)) json_or_panic,
                              logged (login_post (login_body form (user_name s) pw pw2 items))
                                 ((after_getdata r0 s)\<lparr>client := c\<rparr>))))))))"
  using assms
  unfolding login_request_def logindata_request_def [symmetric] client_get_def client_post_def
  apply (simp only: logindata_request_def [symmetric] getdata_request_def [symmetric]
      login_post_def [symmetric])
  apply (simp add: bindE_send_answer bindE_get_login_form bindE_lift bindE_reading bindE_modify
      raise_apply lift_apply ret_apply after_fields bnd_def
      after_logindata_def [symmetric] after_getdata_def [symmetric]
      split: sum.splits prod.splits)
  done


subsection \<open>Dictionaries as maps\<close>

lemma map_of_dict_set:
  "map_of (dict_set k v d) k' = (if k' = k then Some v else map_of d k')"
  by (induction d) auto

lemma map_of_dict_update:
  "map_of (dict_update d e) k =
     (case map_of (rev e) k of Some v \<Rightarrow> Some v | None \<Rightarrow> map_of d k)"
proof (induction e arbitrary: d)
  case Nil
  show ?case by simp
next
  case (Cons kv e)
  obtain k' v where kv: "kv = (k', v)" by (cases kv)
  show ?case
    by (simp add: kv Cons map_of_dict_set map_add_def split: option.splits)
qed

lemma map_of_rev_distinct: "distinct (map fst e) \<Longrightarrow> map_of (rev e) = map_of e"
  by (rule map_of_inject_set [THEN iffD2]) (simp_all add: rev_map [symmetric])

lemma map_of_dict_del: "map_of (dict_del k d) k' = (if k' = k then None else map_of d k')"
  by (induction d) (auto simp: dict_del_def)

lemma distinct_dict_del: "distinct (map fst d) \<Longrightarrow> distinct (map fst (dict_del k d))"
  by (simp add: dict_del_def distinct_map_filter)

lemma keys_dict_set:
  "map fst (dict_set k v d) = (if k \<in> fst ` set d then map fst d else map fst d @ [k])"
  by (induction d) force+

lemma distinct_dict_set: "distinct (map fst d) \<Longrightarrow> distinct (map fst (dict_set k v d))"
  by (simp add: keys_dict_set)

lemma distinct_dict_update: "distinct (map fst d) \<Longrightarrow> distinct (map fst (dict_update d e))"
  by (induction e arbitrary: d) (auto simp: distinct_dict_set)

lemma login_body_lookup:
  assumes "distinct (map fst form)" and "distinct (map fst items)"
  shows "map_of (login_body form un pw pw2 items) k =
     (case map_of items k of
        Some v \<Rightarrow> Some v
      | None \<Rightarrow>
          if k = ascii ''pw2'' then Some (JStr pw2)
          else if k = ascii ''pw'' then Some (JStr pw)
          else if k = ascii ''un'' then Some (JStr un)
          else (case map_of form k of
                  Some v \<Rightarrow> Some v
                | None \<Rightarrow> if k = ascii ''logintype'' then Some (JInt 1) else None))"
  using assms
  by (simp add: login_body_def map_of_dict_update map_of_dict_set map_of_rev_distinct
        split: option.splits)

lemma login_body_distinct: "distinct (map fst (login_body form un pw pw2 items))"
  by (simp add: login_body_def distinct_dict_update distinct_dict_set)

section \<open>The claims\<close>

text \<open>
  C7. For every list of assignments, \<open>get_attachments\<close> issues exactly one request: a
  POST to \<^verbatim>\<open>student/diary/get-attachments\<close> whose JSON body maps \<^verbatim>\<open>assignId\<close> to the
  list of the assignments' ids in the order of the input list, and whose \<^verbatim>\<open>studentId\<close>
  query parameter is the stored student identifier. Whatever the server answers, the
  list of issued requests grows by that one request and nothing else of the object
  changes.
\<close>

theorem get_attachments_one_post:
  "snd (get_attachments env assignments s) =
     s\<lparr>client := (client s)\<lparr>issued := issued (client s) @
        [\<lparr>verb = POST, path = ascii ''student/diary/get-attachments'',
          params = [(ascii ''studentId'', user_id s)],
          form_data = None,
          json_data = Some (JObj [(ascii ''assignId'',
                                   JList (map (\<lambda>a. JInt (assignment_id a)) assignments))]),
          sent_headers = headers (client s)\<rparr>]\<rparr>\<rparr>"
  by (simp add: get_attachments_run logged_def attachments_request_def)

theorem get_attachments_one_post_witness:
  "issued (client (snd (get_attachments (demo_env [])
       [\<lparr>assignment_id = 11\<rparr>, \<lparr>assignment_id = 5\<rparr>] (demo_api\<lparr>user_id := JInt 42\<rparr>)))) =
     [\<lparr>verb = POST, path = ascii ''student/diary/get-attachments'',
       params = [(ascii ''studentId'', JInt 42)],
       form_data = None,
       json_data = Some (JObj [(ascii ''assignId'', JList [JInt 11, JInt 5])]),
       sent_headers = [(ascii ''user-agent'', JStr (ascii ''NetSchoolAPI/4.0.2'')),
                       (ascii ''referer'', JStr (ascii ''https://sgo.example/''))]\<rparr>]"
  using get_attachments_one_post [of "demo_env []"
      "[\<lparr>assignment_id = 11\<rparr>, \<lparr>assignment_id = 5\<rparr>]" "demo_api\<lparr>user_id := JInt 42\<rparr>"]
  by (simp add: demo_api_def init_def)

text \<open>
  C8. \<open>logout\<close> issues the sign-out POST and leaves the local session state as it was:
  the stored access-token header (all client-level headers), the student identifier
  and the school-year identifier are the same after it, whatever the server answers.
\<close>

theorem logout_keeps_session_state:
  "issued (client (snd (logout env s))) =
     issued (client s) @
       [\<lparr>verb = POST, path = ascii ''auth/logout'', params = [], form_data = None,
         json_data = None, sent_headers = headers (client s)\<rparr>]
   \<and> headers (client (snd (logout env s))) = headers (client s)
   \<and> map_of (headers (client (snd (logout env s)))) (ascii ''at'')
       = map_of (headers (client s)) (ascii ''at'')
   \<and> user_id (snd (logout env s)) = user_id s
   \<and> year_id (snd (logout env s)) = year_id s"
  by (simp add: logout_run logged_fields logout_request_def)

theorem logout_keeps_session_state_witness:
  "map_of (headers (client (snd (logout (demo_env [(ascii ''auth/logout'', html_reply)])
       (demo_api\<lparr>user_id := JInt 42, year_id := JInt 7,
          client := set_header (ascii ''at'') (JStr (ascii ''token123'')) (client demo_api)\<rparr>)))))
     (ascii ''at'') = Some (JStr (ascii ''token123''))
   \<and> user_id (snd (logout (demo_env [(ascii ''auth/logout'', html_reply)])
       (demo_api\<lparr>user_id := JInt 42, year_id := JInt 7,
          client := set_header (ascii ''at'') (JStr (ascii ''token123'')) (client demo_api)\<rparr>)))
      = JInt 42
   \<and> year_id (snd (logout (demo_env [(ascii ''auth/logout'', html_reply)])
       (demo_api\<lparr>user_id := JInt 42, year_id := JInt 7,
          client := set_header (ascii ''at'') (JStr (ascii ''token123'')) (client demo_api)\<rparr>)))
      = JInt 7"
  using logout_keeps_session_state [of "demo_env [(ascii ''auth/logout'', html_reply)]"
      "demo_api\<lparr>user_id := JInt 42, year_id := JInt 7,
          client := set_header (ascii ''at'') (JStr (ascii ''token123'')) (client demo_api)\<rparr>"]
  by (simp add: demo_api_def init_def set_header_def ascii_def)

text \<open>
  C1. For every password \<open>p\<close> and salt string \<open>s\<close>, lines 91 to 93 of \<^verbatim>\<open>_login\<close> give
  \<open>pw2\<close> = the lower-case hex digest of (the UTF-8 bytes of \<open>s\<close> followed by the ASCII
  bytes of the lower-case hex digest of \<open>p\<close> encoded in windows-1251) and \<open>pw\<close> = the
  first \<open>length p\<close> characters of \<open>pw2\<close>. The result is a function of the digest, \<open>p\<close>
  and \<open>s\<close> alone; when \<open>p\<close> has no windows-1251 encoding, or \<open>s\<close> no UTF-8 encoding,
  the encoding error is the result.
\<close>

theorem login_hash_pipeline:
  "login_hash digest p (JStr s) =
     (case encode_windows_1251 p of
        Inl e \<Rightarrow> Inl e
      | Inr pb \<Rightarrow>
          (case encode_utf8 s of
             Inl e \<Rightarrow> Inl e
           | Inr sb \<Rightarrow> Inr (take (length p) (spec_pw2 digest sb pb), spec_pw2 digest sb pb)))"
  by (simp add: login_hash_def spec_pw2_def encode_utf8_hexdigest bnd_def Let_def
           split: sum.splits)

theorem login_hash_pipeline_witness:
  "login_hash toy_md5 (ascii ''abc123'') (JStr (ascii ''S'')) =
     Inr (ascii ''212121'', ascii ''21212121212121212121212121212121'')"
  using login_hash_pipeline [of toy_md5 "ascii ''abc123''" "ascii ''S''"]
  by (simp add: ascii_def encode_windows_1251_def encode_utf8_def cp1251_char_def utf8_char_def
        bnd_def spec_pw2_def toy_md5_def hexdigest_def hex_digit_def Let_def)

text \<open>
  C9. There are login responses for which \<open>login\<close> raises an untyped missing-key error
  and none of the library's typed errors: whenever the decoded login response is a JSON
  object with neither an \<^verbatim>\<open>at\<close> key nor a \<^verbatim>\<open>message\<close> key, \<open>login\<close> ends with
  \<^verbatim>\<open>KeyError('message')\<close>, raised by indexing the absent field. The empty object is one
  such response.
\<close>

theorem login_missing_message_key:
  assumes "map_of d (ascii ''at'') = None"
      and "map_of d (ascii ''message'') = None"
      and "login_request env s = (Inr (JObj d), s')"
  shows "login env s = (Inl (KeyError (JStr (ascii ''message''))), s')"
  using assms by (simp add: login_def bindE_def login_response_def run_simps)

theorem login_missing_message_key_witness:
  "fst (login (demo_env ((ascii ''login'', json_reply (JObj [])) # good_answers)) demo_api)
     = Inl (KeyError (JStr (ascii ''message'')))"
proof -
  let ?env = "demo_env ((ascii ''login'', json_reply (JObj [])) # good_answers) :: json env"
  have "fst (login_request ?env demo_api) = Inr (JObj [])"
    by (simp add: eval_simps)
  then have r: "login_request ?env demo_api = (Inr (JObj []), snd (login_request ?env demo_api))"
    by (metis prod.collapse)
  show ?thesis
    using login_missing_message_key [OF _ _ r] by simp
qed

text \<open>
  C5. Every exit of the scoped session invokes \<open>logout\<close> exactly once, whether the body
  returned or raised. Once \<^verbatim>\<open>__aenter__\<close> has returned and the body has ended with any
  outcome, \<^verbatim>\<open>__aexit__\<close> adds exactly one request to those issued up to the end of the
  body, the sign-out POST; the outcome of the block is that of the body, unless the
  sign-out request itself fails.
\<close>

theorem scoped_session_logs_out_once:
  assumes "aenter env s = (Inr u, s1)"
      and "block s1 = (outcome, s2)"
  shows "issued (client (snd (async_with env block s))) =
           issued (client s2) @
             [\<lparr>verb = POST, path = ascii ''auth/logout'', params = [], form_data = None,
               json_data = None, sent_headers = headers (client s2)\<rparr>]
         \<and> fst (async_with env block s) =
             (case server_of env (issued (client s2))
                     \<lparr>verb = POST, path = ascii ''auth/logout'', params = [], form_data = None,
                       json_data = None, sent_headers = headers (client s2)\<rparr> of
                Inl e \<Rightarrow> Inl e
              | Inr r \<Rightarrow> outcome)"
  using assms
  by (simp add: async_with_def aexit_def logout_run logged_fields logout_request_def bnd_def
           split: sum.splits)

theorem scoped_session_logs_out_once_witness:
  "map path (issued (client (snd (async_with (demo_env good_answers) (raise TypeError) demo_api))))
     = [ascii ''logindata'', ascii ''auth/getdata'', ascii ''login'', ascii ''student/diary/init'',
        ascii ''context'', ascii ''auth/logout'']
   \<and> fst (async_with (demo_env good_answers) (raise TypeError) demo_api
            :: (error + unit) \<times> netschoolapi) = Inl TypeError"
proof -
  let ?env = "demo_env good_answers :: json env"
  have "fst (aenter ?env demo_api) = Inr ()"
    by (simp add: aenter_def bindE_ret_right eval_simps)
  then have e: "aenter ?env demo_api = (Inr (), snd (aenter ?env demo_api))"
    by (metis prod.collapse)
  have b: "(raise TypeError :: (netschoolapi, unit) prog) (snd (aenter ?env demo_api))
             = (Inl TypeError, snd (aenter ?env demo_api))"
    by (simp add: raise_apply)
  show ?thesis
    using scoped_session_logs_out_once [where block = "raise TypeError", OF e b]
    by (simp add: aenter_def bindE_ret_right async_with_def aexit_def eval_simps)
qed

text \<open>
  C4. For every call of \<open>get_diary\<close>: an omitted \<open>week_start\<close> defaults to the Monday
  of the current week (today minus today's weekday), an omitted \<open>week_end\<close> to
  \<open>week_start\<close> plus 5 days, and the GET that is issued carries \<^verbatim>\<open>weekStart\<close> and
  \<^verbatim>\<open>weekEnd\<close> equal to the ISO rendering of exactly those dates (with \<^verbatim>\<open>studentId\<close> and
  \<^verbatim>\<open>yearId\<close> as stored). The request is issued whenever \<open>week_start + 5 days\<close> is a
  date (up to 9999-12-31); beyond that Python's date arithmetic raises
  \<^verbatim>\<open>OverflowError\<close> before any request.
\<close>

theorem get_diary_week_bounds:
  assumes "valid_date (today env)"
      and "ws = (case week_start of
                   None \<Rightarrow> Date (toordinal (today env) - weekday (today env))
                 | Some d \<Rightarrow> d)"
      and "we = (case week_end of None \<Rightarrow> Date (toordinal ws + 5) | Some d \<Rightarrow> d)"
      and "week_end = None \<longrightarrow> 0 < toordinal ws + 5 \<and> toordinal ws + 5 \<le> max_ordinal"
  shows "issued (client (snd (get_diary env week_start week_end s))) =
           issued (client s) @
             [\<lparr>verb = GET, path = ascii ''student/diary'',
               params = [(ascii ''studentId'', user_id s),
                         (ascii ''weekStart'', JStr (isoformat ws)),
                         (ascii ''weekEnd'', JStr (isoformat we)),
                         (ascii ''yearId'', year_id s)],
               form_data = None, json_data = None, sent_headers = headers (client s)\<rparr>]
         \<and> (week_start = None \<longrightarrow>
               weekday ws = 0 \<and> toordinal ws \<le> toordinal (today env)
               \<and> toordinal (today env) < toordinal ws + 7)"
proof -
  have start: "(case week_start of
                  None \<Rightarrow> date_sub (today env) (weekday (today env))
                | Some d \<Rightarrow> Inr d) = Inr ws"
    using assms(1,2) monday_in_range [of "today env"]
    by (simp add: date_sub_def date_add_def split: option.splits)
  have stop: "(case week_end of None \<Rightarrow> date_add ws 5 | Some d \<Rightarrow> Inr d) = Inr we"
    using assms(3,4) by (simp add: date_add_def split: option.splits)
  have "get_diary env week_start week_end s = get_diary env (Some ws) (Some we) s"
    by (simp add: get_diary_defaults [of env week_start week_end] start stop)
  then have "issued (client (snd (get_diary env week_start week_end s))) =
           issued (client s) @
             [(diary_request (user_id s) (year_id s) ws we)\<lparr>sent_headers := headers (client s)\<rparr>]"
    by (simp add: get_diary_run logged_fields)
  moreover have "week_start = None \<longrightarrow>
               weekday ws = 0 \<and> toordinal ws \<le> toordinal (today env)
               \<and> toordinal (today env) < toordinal ws + 7"
    using assms(2) monday_of_week [of "today env"] by simp
  ultimately show ?thesis
    by (simp add: diary_request_def)
qed

theorem get_diary_week_bounds_witness:
  "map params (issued (client (snd (get_diary (demo_env []) None None demo_api)))) =
     [[(ascii ''studentId'', JNull),
       (ascii ''weekStart'', JStr (ascii ''2026-11-02'')),
       (ascii ''weekEnd'', JStr (ascii ''2026-11-07'')),
       (ascii ''yearId'', JNull)]]
   \<and> weekday (Date 739922) = 0"
proof -
  let ?env = "demo_env [] :: json env"
  have i1: "isoformat (Date 739922) = ascii ''2026-11-02''"
    by (simp add: isoformat_def ord2ymd_def days_before_month_def days_in_month_def
          zero_pad_def str_nat.simps ascii_def)
  have i2: "isoformat (Date 739927) = ascii ''2026-11-07''"
    by (simp add: isoformat_def ord2ymd_def days_before_month_def days_in_month_def
          zero_pad_def str_nat.simps ascii_def)
  have t: "today ?env = Date 739924"
    by (simp add: demo_env_def)
  have v: "valid_date (today ?env)"
    by (simp add: t valid_date_def max_ordinal_def)
  have w: "Date 739922 = (case None :: date option of
             None \<Rightarrow> Date (toordinal (today ?env) - weekday (today ?env)) | Some d \<Rightarrow> d)"
    by (simp add: t weekday_def)
  have e: "Date 739927 = (case None :: date option of
             None \<Rightarrow> Date (toordinal (Date 739922) + 5) | Some d \<Rightarrow> d)"
    by simp
  have r: "(None :: date option) = None \<longrightarrow>
             0 < toordinal (Date 739922) + 5 \<and> toordinal (Date 739922) + 5 \<le> max_ordinal"
    by (simp add: max_ordinal_def)
  have u: "user_id demo_api = JNull" "year_id demo_api = JNull" "issued (client demo_api) = []"
    by (simp_all add: demo_api_def init_def)
  show ?thesis
    using get_diary_week_bounds [OF v w e r, of demo_api]
    by (simp add: i1 i2 u)
qed

text \<open>
  C6. Whenever the handshake gets as far as the login POST (the \<^verbatim>\<open>logindata\<close> and
  \<^verbatim>\<open>auth/getdata\<close> requests are answered, the \<^verbatim>\<open>auth/getdata\<close> payload is a JSON
  object \<open>d\<close> with a \<^verbatim>\<open>salt\<close> key, the hash is computed and the login form resolved),
  the last request issued is that POST, and its body is a dictionary in which a key
  \<open>k\<close> has: the value \<open>d\<close> gives it, if \<open>k\<close> is a key of \<open>d\<close> other than
  \<^verbatim>\<open>salt\<close>; otherwise \<open>pw2\<close>, \<open>pw\<close> and the user name for \<^verbatim>\<open>pw2\<close>, \<^verbatim>\<open>pw\<close> and
  \<^verbatim>\<open>un\<close>; otherwise the value the resolved form gives it; otherwise 1 for
  \<^verbatim>\<open>logintype\<close>; and no other key. So the entries of the payload win over the
  computed fields, and these over the form fields, when keys coincide.
\<close>

theorem login_post_fields:
  assumes "answer env logindata_request s = Inr r0"
      and "answer env getdata_request (after_logindata r0 s) = Inr r1"
      and "json_value r1 = Some (JObj d)"
      and "distinct (map fst d)"
      and "map_of d (ascii ''salt'') = Some salt"
      and "login_hash (md5 env) (password s) salt = Inr (pw, pw2)"
      and "get_login_form env (client (after_getdata r0 s)) (school s) = (Inr form, c)"
      and "distinct (map fst form)"
  shows "issued (client (snd (login_request env s))) =
           issued c @
             [\<lparr>verb = POST, path = ascii ''login'', params = [],
               form_data = Some (login_body form (user_name s) pw pw2
                                   (dict_del (ascii ''salt'') d)),
               json_data = None, sent_headers = headers c\<rparr>]
         \<and> distinct (map fst (login_body form (user_name s) pw pw2
                                  (dict_del (ascii ''salt'') d)))
         \<and> (\<forall>k. map_of (login_body form (user_name s) pw pw2
                            (dict_del (ascii ''salt'') d)) k =
               (case (if k = ascii ''salt'' then None else map_of d k) of
                  Some v \<Rightarrow> Some v
                | None \<Rightarrow>
                    if k = ascii ''pw2'' then Some (JStr pw2)
                    else if k = ascii ''pw'' then Some (JStr pw)
                    else if k = ascii ''un'' then Some (JStr (user_name s))
                    else (case map_of form k of
                            Some v \<Rightarrow> Some v
                          | None \<Rightarrow> if k = ascii ''logintype'' then Some (JInt 1) else None)))"
proof -
  let ?items = "dict_del (ascii ''salt'') d"
  let ?entries = "login_body form (user_name s) pw pw2 ?items"
  have run: "snd (login_request env s) =
               logged (login_post ?entries) ((after_getdata r0 s)\<lparr>client := c\<rparr>)"
    using assms(2,3,5,6,7)
    by (simp add: login_request_getdata [OF assms(1)] json_or_panic_def)
  have "issued (client (snd (login_request env s))) =
          issued c @
            [\<lparr>verb = POST, path = ascii ''login'', params = [], form_data = Some ?entries,
              json_data = None, sent_headers = headers c\<rparr>]"
    by (simp add: run logged_def login_post_def)
  moreover have "distinct (map fst ?entries)"
    by (rule login_body_distinct)
  moreover have "\<forall>k. map_of ?entries k =
               (case (if k = ascii ''salt'' then None else map_of d k) of
                  Some v \<Rightarrow> Some v
                | None \<Rightarrow>
                    if k = ascii ''pw2'' then Some (JStr pw2)
                    else if k = ascii ''pw'' then Some (JStr pw)
                    else if k = ascii ''un'' then Some (JStr (user_name s))
                    else (case map_of form k of
                            Some v \<Rightarrow> Some v
                          | None \<Rightarrow> if k = ascii ''logintype'' then Some (JInt 1) else None))"
    using assms(4,8)
    by (simp add: login_body_lookup distinct_dict_del map_of_dict_del)
  ultimately show ?thesis
    by simp
qed

theorem login_post_fields_witness:
  "form_data (last (issued (client (snd (login_request (demo_env good_answers) demo_api))))) =
     Some [(ascii ''logintype'', JInt 1), (ascii ''scid'', JStr (ascii ''RU'')),
           (ascii ''un'', JStr (ascii ''ivanov'')), (ascii ''pw'', JStr (ascii ''212121'')),
           (ascii ''pw2'', JStr (ascii ''21212121212121212121212121212121'')),
           (ascii ''lt'', JStr (ascii ''1'')), (ascii ''ver'', JStr (ascii ''2''))]"
proof -
  let ?env = "demo_env good_answers :: json env"
  let ?d = "[(ascii ''lt'', JStr (ascii ''1'')), (ascii ''ver'', JStr (ascii ''2'')),
             (ascii ''salt'', JStr (ascii ''S''))]"
  let ?c = "client (after_getdata html_reply demo_api)"
  have h1: "answer ?env logindata_request demo_api = Inr html_reply"
    by (simp add: answer_def logindata_request_def demo_env_def scripted_def good_answers_def
          ascii_def)
  have h2: "answer ?env getdata_request (after_logindata html_reply demo_api) =
              Inr (json_reply (JObj ?d))"
    by (simp add: answer_def getdata_request_def demo_env_def scripted_def good_answers_def
          ascii_def)
  have h3: "json_value (json_reply (JObj ?d)) = Some (JObj ?d)"
    by (simp add: json_reply_def)
  have h4: "distinct (map fst ?d)"
    by (simp add: ascii_def)
  have h5: "map_of ?d (ascii ''salt'') = Some (JStr (ascii ''S''))"
    by (simp add: ascii_def)
  have h6: "login_hash (md5 ?env) (password demo_api) (JStr (ascii ''S'')) =
              Inr (ascii ''212121'', ascii ''21212121212121212121212121212121'')"
    by (simp add: demo_env_def demo_api_def init_def ascii_def login_hash_def
          encode_windows_1251_def encode_utf8_def cp1251_char_def utf8_char_def bnd_def
          toy_md5_def hexdigest_def hex_digit_def Let_def)
  have h7: "get_login_form ?env ?c (school demo_api) = (Inr [(ascii ''scid'', JStr (ascii ''RU''))], ?c)"
    by (simp add: demo_env_def demo_api_def init_def after_getdata_def after_logindata_def
          logged_def)
  have h8: "distinct (map fst [(ascii ''scid'', JStr (ascii ''RU''))])"
    by simp
  show ?thesis
    using login_post_fields [OF h1 h2 h3 h4 h5 h6 h7 h8]
    by (simp add: login_body_def dict_del_def ascii_def demo_api_def init_def)
qed

text \<open>
  A payload of \<^verbatim>\<open>auth/getdata\<close> with a key \<^verbatim>\<open>un\<close>: the login POST carries the
  payload's value for \<^verbatim>\<open>un\<close>, not the user name the object was built with.
\<close>

theorem login_post_payload_overrides_username:
  "map form_data (issued (client (snd (login_request
       (demo_env [(ascii ''logindata'', html_reply),
                  (ascii ''auth/getdata'',
                     json_reply (JObj [(ascii ''salt'', JStr (ascii ''S'')),
                                       (ascii ''un'', JStr (ascii ''admin''))])),
                  (ascii ''login'', json_reply (JObj [(ascii ''at'', JStr (ascii ''token123''))]))])
       demo_api)))) =
     [None, None,
      Some [(ascii ''logintype'', JInt 1), (ascii ''scid'', JStr (ascii ''RU'')),
            (ascii ''un'', JStr (ascii ''admin'')), (ascii ''pw'', JStr (ascii ''212121'')),
            (ascii ''pw2'', JStr (ascii ''21212121212121212121212121212121''))]]
   \<and> user_name demo_api = ascii ''ivanov''"
  by (simp add: eval_simps)

end
